theory Spec2Isabelle
  imports Main
begin

section \<open>Strings\<close>

text \<open>
  A Python \<open>str\<close> is a sequence of Unicode code points; it is modelled as the list of
  its code points. \<open>ascii\<close> embeds an ASCII literal.
\<close>

type_synonym pystr = "nat list"

definition ascii :: "string \<Rightarrow> pystr" where
  "ascii s = map of_char s"

text \<open>The generic shop title \<open>U+62FC U+591A U+591A U+5546 U+57CE\<close> that the code treats as a placeholder.\<close>

definition placeholder_title :: pystr where
  "placeholder_title = [0x62FC, 0x591A, 0x591A, 0x5546, 0x57CE]"

section \<open>Data model\<close>

text \<open>
  \<open>ProductInfo.raw\<close> is a diagnostic dict that only this module fills, with the fixed keys
  below, each always holding one type of value; an absent key is \<open>None\<close>.
\<close>

record raw_info =
  html_length :: "nat option"
  raw_method :: "pystr option"
  video_candidates :: "pystr list option"
  image_candidates :: "pystr list option"
  network_urls_count :: "nat option"
  json_video_candidates :: "nat option"
  merge_from :: "pystr list option"
  canonical_url :: "pystr option"
  attempted_urls :: "pystr list option"
  needs_login :: "bool option"
  static_errors :: "pystr list option"
  dynamic_attempts :: "pystr list option"
  fallback :: "pystr option"

definition empty_raw :: raw_info where
  "empty_raw = \<lparr>html_length = None, raw_method = None, video_candidates = None,
     image_candidates = None, network_urls_count = None, json_video_candidates = None,
     merge_from = None, canonical_url = None, attempted_urls = None, needs_login = None,
     static_errors = None, dynamic_attempts = None, fallback = None\<rparr>"

record ProductInfo =
  source_url :: pystr
  final_url :: pystr
  title :: pystr
  images :: "pystr list"
  videos :: "pystr list"
  raw :: raw_info

text \<open>The dataclass constructor with its defaults.\<close>

definition new_ProductInfo :: "pystr \<Rightarrow> ProductInfo" where
  "new_ProductInfo u = \<lparr>source_url = u, final_url = [], title = [], images = [], videos = [],
     raw = empty_raw\<rparr>"

text \<open>\<open>d.get(key, [])\<close> on a list-valued key.\<close>

definition get_list :: "pystr list option \<Rightarrow> pystr list" where
  "get_list v = (case v of None \<Rightarrow> [] | Some xs \<Rightarrow> xs)"

section \<open>Deduplication by path\<close>

text \<open>\<open>item.split("?")[0]\<close>: the part before the first question mark.\<close>

definition strip_query :: "pystr \<Rightarrow> pystr" where
  "strip_query item = takeWhile (\<lambda>c. c \<noteq> 63) item"

fun uniq_loop :: "pystr set \<Rightarrow> pystr list \<Rightarrow> pystr list" where
  "uniq_loop seen [] = []"
| "uniq_loop seen (item # items) =
     (if strip_query item \<notin> seen
      then item # uniq_loop (insert (strip_query item) seen) items
      else uniq_loop seen items)"

definition uniq_by_path :: "pystr list \<Rightarrow> pystr list" where
  "uniq_by_path items = uniq_loop {} items"

section \<open>Fusion and scoring\<close>

definition score_info :: "ProductInfo \<Rightarrow> nat" where
  "score_info info =
     length (videos info) * 100 + length (images info) * 10
       + (if title info \<noteq> [] \<and> title info \<noteq> placeholder_title then 1 else 0)"

definition merge_info :: "ProductInfo \<Rightarrow> ProductInfo \<Rightarrow> pystr \<Rightarrow> ProductInfo" where
  "merge_info base incoming source_label =
     (let b1 = (if title incoming \<noteq> [] \<and> (title base = [] \<or> title base = placeholder_title)
                then base\<lparr>title := title incoming\<rparr> else base);
          b2 = (if final_url incoming \<noteq> [] then b1\<lparr>final_url := final_url incoming\<rparr> else b1);
          merged_images = uniq_by_path (images b2 @ images incoming);
          merged_videos = uniq_by_path (videos b2 @ videos incoming);
          b3 = b2\<lparr>images := take 6 merged_images, videos := take 3 merged_videos\<rparr>;
          base_video_candidates = get_list (video_candidates (raw b3));
          incoming_video_candidates = get_list (video_candidates (raw incoming));
          r1 = (raw b3)\<lparr>video_candidates :=
                  Some (take 12 (uniq_by_path (base_video_candidates @ incoming_video_candidates)))\<rparr>;
          base_image_candidates = get_list (image_candidates r1);
          incoming_image_candidates = get_list (image_candidates (raw incoming));
          r2 = r1\<lparr>image_candidates :=
                  Some (take 12 (uniq_by_path (base_image_candidates @ incoming_image_candidates)))\<rparr>;
          attempts = get_list (merge_from r2) @ [source_label]
      in b3\<lparr>raw := r2\<lparr>merge_from := Some attempts\<rparr>\<rparr>)"

section \<open>Properties of the merge\<close>

lemma merge_info_title:
  "title (merge_info base incoming l) =
     (if title incoming \<noteq> [] \<and> (title base = [] \<or> title base = placeholder_title)
      then title incoming else title base)"
  by (simp add: merge_info_def Let_def)

text \<open>
  C3 (as stated): whenever \<open>merge_info\<close> changes the title, the new title is non-empty and
  differs from the placeholder. This fails: an empty base title is overwritten by an
  incoming placeholder title.
\<close>

theorem C3_title_placeholder_counterexample:
  "title (merge_info (new_ProductInfo (ascii ''u'')) ((new_ProductInfo (ascii ''u''))\<lparr>title := placeholder_title\<rparr>) (ascii ''l''))
     \<noteq> title (new_ProductInfo (ascii ''u''))
   \<and> title (merge_info (new_ProductInfo (ascii ''u'')) ((new_ProductInfo (ascii ''u''))\<lparr>title := placeholder_title\<rparr>) (ascii ''l''))
     = placeholder_title"
  by (simp add: merge_info_title new_ProductInfo_def placeholder_title_def)

text \<open>
  C3 (amended): whenever \<open>merge_info\<close> changes the title of the base, the old title was
  empty or the placeholder, and the new title is the non-empty title of the incoming
  record (which may itself be the placeholder).
\<close>

theorem C3_title_overwrite:
  "title (merge_info base incoming l) \<noteq> title base \<Longrightarrow>
     title (merge_info base incoming l) = title incoming \<and> title incoming \<noteq> []
     \<and> (title base = [] \<or> title base = placeholder_title)"
  by (simp add: merge_info_title split: if_splits)

theorem C3_title_overwrite_witness:
  "title (merge_info ((new_ProductInfo (ascii ''u''))\<lparr>title := placeholder_title\<rparr>)
            ((new_ProductInfo (ascii ''u''))\<lparr>title := ascii ''Lamp''\<rparr>) (ascii ''l'')) = ascii ''Lamp''
   \<and> ascii ''Lamp'' \<noteq> []"
proof -
  let ?b = "(new_ProductInfo (ascii ''u''))\<lparr>title := placeholder_title\<rparr>"
  let ?i = "(new_ProductInfo (ascii ''u''))\<lparr>title := ascii ''Lamp''\<rparr>"
  have "title (merge_info ?b ?i (ascii ''l'')) \<noteq> title ?b"
    by (simp add: merge_info_title ascii_def placeholder_title_def)
  from C3_title_overwrite [OF this] show ?thesis by simp
qed

text \<open>
  C10: \<open>merge_info\<close> never modifies \<open>source_url\<close>; an empty incoming \<open>final_url\<close> leaves
  \<open>final_url\<close> unchanged; only \<open>title\<close>, \<open>final_url\<close>, \<open>images\<close>, \<open>videos\<close> and the
  diagnostic fields \<open>video_candidates\<close>, \<open>image_candidates\<close> and \<open>merge_from\<close> can change.
\<close>

theorem C10_merge_frame:
  "source_url (merge_info base incoming l) = source_url base
   \<and> (final_url incoming = [] \<longrightarrow> final_url (merge_info base incoming l) = final_url base)
   \<and> (\<exists>t f im vi vc ic mf.
         merge_info base incoming l =
           base\<lparr>title := t, final_url := f, images := im, videos := vi,
                raw := (raw base)\<lparr>video_candidates := vc, image_candidates := ic,
                                   merge_from := mf\<rparr>\<rparr>)"
proof (intro conjI)
  show "source_url (merge_info base incoming l) = source_url base"
    by (simp add: merge_info_def Let_def)
  show "final_url incoming = [] \<longrightarrow> final_url (merge_info base incoming l) = final_url base"
    by (simp add: merge_info_def Let_def)
  show "\<exists>t f im vi vc ic mf.
         merge_info base incoming l =
           base\<lparr>title := t, final_url := f, images := im, videos := vi,
                raw := (raw base)\<lparr>video_candidates := vc, image_candidates := ic,
                                   merge_from := mf\<rparr>\<rparr>"
    apply (rule exI [of _ "title (merge_info base incoming l)"])
    apply (rule exI [of _ "final_url (merge_info base incoming l)"])
    apply (rule exI [of _ "images (merge_info base incoming l)"])
    apply (rule exI [of _ "videos (merge_info base incoming l)"])
    apply (rule exI [of _ "video_candidates (raw (merge_info base incoming l))"])
    apply (rule exI [of _ "image_candidates (raw (merge_info base incoming l))"])
    apply (rule exI [of _ "merge_from (raw (merge_info base incoming l))"])
    apply (simp add: merge_info_def Let_def)
    done
qed

theorem C10_merge_frame_witness:
  "final_url (merge_info ((new_ProductInfo (ascii ''a''))\<lparr>final_url := ascii ''f''\<rparr>)
       (new_ProductInfo (ascii ''b'')) (ascii ''l'')) = ascii ''f''
   \<and> source_url (merge_info ((new_ProductInfo (ascii ''a''))\<lparr>final_url := ascii ''f''\<rparr>)
       (new_ProductInfo (ascii ''b'')) (ascii ''l'')) = ascii ''a''"
  using C10_merge_frame [of "(new_ProductInfo (ascii ''a''))\<lparr>final_url := ascii ''f''\<rparr>"
      "new_ProductInfo (ascii ''b'')" "ascii ''l''"]
  by (simp add: new_ProductInfo_def)

end
